theory Spec2Isabelle
  imports Main "HOL-Library.Sublist"
begin

section \<open>Package util: Go values\<close>

text \<open>
  The package runs external programs (rpm, gpg, git) and touches the file system.
  The embedding makes both explicit: a \<open>world\<close> holds what the process can observe and
  change, a \<open>host\<close> holds what the machine answers (the outcome of each started program,
  the outcome of creating a temporary directory, the environment variable TMPDIR).
  Every function of the package takes the host and the world and returns its Go result
  together with the world it leaves behind.
\<close>

type_synonym ErrPrefix = string

record GitSpec =
  Revision :: string
  ClonedDir :: string

text \<open>
  Go's \<open>error\<close> values as the package sees them: \<open>*exec.ExitError\<close> (with the exit code,
  the captured stderr and the text of the process state, which is what \<open>Error()\<close> prints),
  and every other error, known by its message only (this includes the errors that
  \<open>fmt.Errorf\<close> builds).
\<close>

datatype go_error =
    ExitError (ExitCode: int) (Stderr: string) (ProcessState: string)
  | errorString string

fun Error :: "go_error \<Rightarrow> string" where
  "Error (ExitError c se st) = st"
| "Error (errorString s) = s"

definition sq :: string where
  "sq = [CHR 0x27]"

definition nl :: string where
  "nl = [CHR 0x0A]"

text \<open>The verb \<open>%d\<close>: decimal digits, with a minus sign for a negative number.\<close>

fun Uitoa :: "nat \<Rightarrow> string" where
  "Uitoa n = (if n < 10 then [char_of (48 + n)]
              else Uitoa (n div 10) @ [char_of (48 + n mod 10)])"

declare Uitoa.simps [simp del]

definition Itoa :: "int \<Rightarrow> string" where
  "Itoa i = (if i < 0 then CHR ''-'' # Uitoa (nat (- i)) else Uitoa (nat i))"

text \<open>
  \<open>fmt.Errorf\<close> with a format made of literal text and the verbs \<open>%s\<close> and \<open>%d\<close>: the
  pieces (literal fragments and formatted arguments) are given in order.
\<close>

definition Errorf :: "string list \<Rightarrow> go_error" where
  "Errorf pieces = errorString (concat pieces)"

fun strings_Join :: "string list \<Rightarrow> string \<Rightarrow> string" where
  "strings_Join [] sep = ''''"
| "strings_Join [x] sep = x"
| "strings_Join (x # y # ys) sep = x @ sep @ strings_Join (y # ys) sep"

text \<open>\<open>strings.Contains s substr\<close>: \<open>substr\<close> occurs in \<open>s\<close> as a contiguous block.\<close>

definition strings_Contains :: "string \<Rightarrow> string \<Rightarrow> bool" where
  "strings_Contains s substr = sublist substr s"

section \<open>Paths\<close>

fun split_sep :: "string \<Rightarrow> string list" where
  "split_sep [] = [[]]"
| "split_sep (c # cs) =
     (if c = CHR ''/'' then [] # split_sep cs
      else (case split_sep cs of [] \<Rightarrow> [[c]] | x # xs \<Rightarrow> (c # x) # xs))"

text \<open>
  \<open>filepath.Clean\<close> on a Unix path: empty and \<open>.\<close> elements go, an inner \<open>..\<close> goes with
  the element before it, a \<open>..\<close> at the root goes, and the empty result is \<open>.\<close>.
  The second argument of \<open>clean_elems\<close> is the output so far, last element first.
\<close>

fun clean_elems :: "bool \<Rightarrow> string list \<Rightarrow> string list \<Rightarrow> string list" where
  "clean_elems rooted out [] = rev out"
| "clean_elems rooted out (e # es) =
     (if e = [] \<or> e = ''.'' then clean_elems rooted out es
      else if e = ''..'' then
        (case out of
           [] \<Rightarrow> if rooted then clean_elems rooted [] es else clean_elems rooted [e] es
         | t # ts \<Rightarrow> if t = ''..'' then clean_elems rooted (e # out) es
                     else clean_elems rooted ts es)
      else clean_elems rooted (e # out) es)"

definition filepath_Clean :: "string \<Rightarrow> string" where
  "filepath_Clean path =
     (let rooted = (path \<noteq> [] \<and> hd path = CHR ''/'');
          out = (if rooted then ''/'' else '''')
                @ strings_Join (clean_elems rooted [] (split_sep path)) ''/''
      in if out = [] then ''.'' else out)"

text \<open>\<open>filepath.Join\<close>: leading empty elements are ignored, the rest is joined and cleaned.\<close>

definition filepath_Join :: "string list \<Rightarrow> string" where
  "filepath_Join elem =
     (case dropWhile (\<lambda>e. e = []) elem of
        [] \<Rightarrow> ''''
      | e # es \<Rightarrow> filepath_Clean (strings_Join (e # es) ''/''))"

text \<open>
  The name of a file when nothing but the text of the path and the working directory
  decides it: a relative path is taken from the working directory, and the result is
  cleaned. A host without links names its files so.
\<close>

definition lexical_realpath :: "string \<Rightarrow> string \<Rightarrow> string" where
  "lexical_realpath cwd path =
     filepath_Clean (if path \<noteq> [] \<and> hd path = CHR ''/'' then path else cwd @ ''/'' @ path)"

text \<open>
  Among resolved names, \<open>p\<close> is the directory \<open>d\<close> or lies in it when it is \<open>d\<close> itself
  or continues it after a separator.
\<close>

definition under :: "string \<Rightarrow> string \<Rightarrow> bool" where
  "under d p =
     (p = d \<or> prefix (if d \<noteq> [] \<and> last d = CHR ''/'' then d else d @ ''/'') p)"

section \<open>The world and the host\<close>

record Cmd =
  Name :: string
  Args :: "string list"
  Dir :: string

text \<open>
  The world: the flag \<open>GlobalVar.Quiet\<close>, the paths that exist, the commands started so
  far (the latest last) and what has been written on \<open>os.Stdout\<close>. What programs write on
  the stderr they inherit is not kept.
\<close>

record world =
  Quiet :: bool
  files :: "string set"
  started :: "Cmd list"
  os_Stdout :: string

text \<open>
  What a started program does: what it writes on stdout, the error \<open>cmd.Run\<close> reports
  (\<open>None\<close> is Go's \<open>nil\<close>: the program ran and exited with status zero; an \<open>ExitError\<close>
  carries the stderr that \<open>cmd.Output\<close> captures), and the paths that exist once it is
  over. The answer may depend on the whole world, the history included.
\<close>

record proc =
  p_stdout :: string
  p_err :: "go_error option"
  p_files :: "string set"

text \<open>
  The host: the environment variable TMPDIR, the outcome of making a temporary
  directory, the outcome of each started program, the name under which the machine
  knows the file a path leads to (separators, dot elements, the working directory and
  links resolved: two paths lead to the same file when these names are equal), and the
  paths that the machine refuses to remove.
\<close>

record host =
  TMPDIR :: string
  mkdir_random :: "world \<Rightarrow> go_error + nat"
  spawn :: "Cmd \<Rightarrow> world \<Rightarrow> proc"
  realpath :: "string \<Rightarrow> string"
  locked :: "string set"

text \<open>The path \<open>p\<close> leads to the directory that \<open>d\<close> leads to, or into it.\<close>

definition inside :: "host \<Rightarrow> string \<Rightarrow> string \<Rightarrow> bool" where
  "inside h d p = under (realpath h d) (realpath h p)"

text \<open>\<open>exec.Command\<close>: the command runs in the directory of the caller unless \<open>Dir\<close> is set.\<close>

definition exec_Command :: "string \<Rightarrow> string list \<Rightarrow> Cmd" where
  "exec_Command name arg = \<lparr>Name = name, Args = arg, Dir = ''''\<rparr>"

text \<open>
  \<open>cmd.Run\<close> and \<open>cmd.Output\<close>: the program is started (it joins the list \<open>started\<close>,
  the latest last) and the file system is what the program leaves.
\<close>

definition exec_Run :: "host \<Rightarrow> world \<Rightarrow> Cmd \<Rightarrow> proc \<times> world" where
  "exec_Run h w cmd =
     (let p = spawn h cmd w
      in (p, w\<lparr>files := p_files p, started := started w @ [cmd]\<rparr>))"

text \<open>
  \<open>os.TempDir\<close> and \<open>os.MkdirTemp\<close> with a pattern that has no \<open>*\<close>. The host chooses
  the random number that ends the name (or fails); a name that leads to a file that
  exists already is not taken, so a directory that is returned is new.
\<close>

definition os_TempDir :: "host \<Rightarrow> string" where
  "os_TempDir h = (if TMPDIR h = [] then ''/tmp'' else TMPDIR h)"

definition joinPath :: "string \<Rightarrow> string \<Rightarrow> string" where
  "joinPath dir name =
     (if dir \<noteq> [] \<and> last dir = CHR ''/'' then dir @ name else dir @ ''/'' @ name)"

definition os_MkdirTemp :: "host \<Rightarrow> world \<Rightarrow> string \<Rightarrow> string \<Rightarrow> (go_error + string) \<times> world" where
  "os_MkdirTemp h w dir pattern =
     (case mkdir_random h w of
        Inl err \<Rightarrow> (Inl err, w)
      | Inr r \<Rightarrow>
          (let name = joinPath (if dir = [] then os_TempDir h else dir) pattern @ Uitoa r
           in if \<exists>p \<in> files w. realpath h p = realpath h name
              then (Inl (errorString (concat [''mkdir '', name, '': file exists''])), w)
              else (Inr name, w\<lparr>files := insert name (files w)\<rparr>)))"

text \<open>
  \<open>os.RemoveAll\<close> removes the path and what it contains; it removes everything it can
  and returns the first error it meets. Nothing happens for the empty path, and a path
  that ends in a \<open>.\<close> element is refused. Otherwise the paths that stay are those that
  the host refuses to remove and the directories that hold one of them; when none is
  refused the error is \<open>nil\<close> and the path is gone with everything in it.
\<close>

definition endsWithDot :: "string \<Rightarrow> bool" where
  "endsWithDot path =
     (path = ''.'' \<or>
      (2 \<le> length path \<and> last path = CHR ''.'' \<and> path ! (length path - 2) = CHR ''/''))"

definition os_RemoveAll :: "host \<Rightarrow> world \<Rightarrow> string \<Rightarrow> go_error option \<times> world" where
  "os_RemoveAll h w path =
     (if path = [] then (None, w)
      else if endsWithDot path then (Some (errorString ''invalid argument''), w)
      else
        (let refused = Set.filter (\<lambda>q. q \<in> locked h \<and> inside h path q) (files w);
             left = Set.filter (\<lambda>p. inside h path p \<longrightarrow> (\<exists>q \<in> refused. inside h p q)) (files w)
         in (if refused = {} then None
             else Some (errorString (concat [''unlinkat '', path, '': permission denied''])),
             w\<lparr>files := left\<rparr>)))"

text \<open>
  \<open>defer f\<close>: the function's body runs, then \<open>f\<close> runs on the world the body leaves,
  whichever \<open>return\<close> the body took; the body's result is the function's result.
\<close>

definition deferred :: "(world \<Rightarrow> world) \<Rightarrow> (world \<Rightarrow> 'a \<times> world) \<Rightarrow> world \<Rightarrow> 'a \<times> world" where
  "deferred f body w = (case body w of (r, w') \<Rightarrow> (r, f w'))"

section \<open>Git revisions\<close>

text \<open>
  The body of each of the two methods is a single statement, \<open>return ""\<close>; the comments
  around it (check the first line of git show; a tag is returned as it is, a short commit
  as it is, a long commit is reduced) describe steps that are not written.
\<close>

definition typeOfGitRevision :: "GitSpec \<Rightarrow> string" where
  "typeOfGitRevision spec = ''''"

definition GetVersionFromRevision :: "GitSpec \<Rightarrow> string" where
  "GetVersionFromRevision spec = ''''"

section \<open>Running commands\<close>

definition RunSystemCmd :: "host \<Rightarrow> world \<Rightarrow> string \<Rightarrow> string list \<Rightarrow> go_error option \<times> world" where
  "RunSystemCmd h w name arg =
     (let cmd = exec_Command name arg
      in case exec_Run h w cmd of
           (p, w') \<Rightarrow>
             (p_err p,
              if \<not> Quiet w then w'\<lparr>os_Stdout := os_Stdout w' @ p_stdout p\<rparr> else w'))"

definition RunSystemCmdInDir ::
  "host \<Rightarrow> world \<Rightarrow> string \<Rightarrow> string \<Rightarrow> string list \<Rightarrow> go_error option \<times> world" where
  "RunSystemCmdInDir h w dir name arg =
     (let cmd = (exec_Command name arg)\<lparr>Dir := dir\<rparr>
      in case exec_Run h w cmd of
           (p, w') \<Rightarrow>
             (p_err p,
              if \<not> Quiet w then w'\<lparr>os_Stdout := os_Stdout w' @ p_stdout p\<rparr> else w'))"

definition CheckOutput ::
  "host \<Rightarrow> world \<Rightarrow> string \<Rightarrow> string list \<Rightarrow> (string \<times> go_error option) \<times> world" where
  "CheckOutput h w name arg =
     (let cmd = exec_Command name arg
      in case exec_Run h w cmd of
           (p, w') \<Rightarrow>
             (let output = p_stdout p
              in case p_err p of
                   Some (ExitError code stderr st) \<Rightarrow>
                     ((output,
                       Some (Errorf [''Running '', sq, name, '' '', strings_Join arg '' '', sq,
                                     '': exited with exit-code '', Itoa code, nl,
                                     ''stderr:'', nl, stderr])), w')
                 | Some (errorString msg) \<Rightarrow>
                     ((output,
                       Some (Errorf [''Running '', sq, name, '' '', strings_Join arg '' '', sq,
                                     '' failed with '', sq, Error (errorString msg), sq])), w')
                 | None \<Rightarrow> ((output, None), w')))"

section \<open>Signature verification\<close>

definition VerifyRpmSignature ::
  "host \<Rightarrow> world \<Rightarrow> string \<Rightarrow> ErrPrefix \<Rightarrow> go_error option \<times> world" where
  "VerifyRpmSignature h w rpmPath errPrefix =
     (case CheckOutput h w ''rpm'' [''-K'', rpmPath] of
        ((output, Some err), w') \<Rightarrow> (Some (Errorf [errPrefix, '':'', Error err]), w')
      | ((output, None), w') \<Rightarrow>
          if \<not> strings_Contains output ''digests signatures OK''
          then (Some (Errorf [errPrefix, ''Signature check of '', rpmPath,
                              '' failed. rpm -K output:'', nl, output]), w')
          else (None, w'))"

definition VerifyTarballSignature ::
  "host \<Rightarrow> world \<Rightarrow> string \<Rightarrow> string \<Rightarrow> string \<Rightarrow> ErrPrefix \<Rightarrow> go_error option \<times> world" where
  "VerifyTarballSignature h w tarballPath tarballSigPath pubKeyPath errPrefix =
     (case os_MkdirTemp h w '''' ''eext-keyring'' of
        (Inl mkdtErr, w0) \<Rightarrow>
          (Some (Errorf [errPrefix, ''Error '', sq, Error mkdtErr, sq,
                         ''creating temp dir for keyring'']), w0)
      | (Inr tmpDir, w0) \<Rightarrow>
          deferred (\<lambda>w. snd (os_RemoveAll h w tmpDir))
            (\<lambda>w0.
              let keyRingPath = filepath_Join [tmpDir, ''eext.gpg''];
                  baseArgs = [''--homedir'', tmpDir,
                              ''--no-default-keyring'', ''--keyring'', keyRingPath];
                  gpgCmd = ''gpg'';
                  createKeyRingCmdArgs = baseArgs @ [''--fingerprint'']
              in case RunSystemCmd h w0 gpgCmd createKeyRingCmdArgs of
                   (Some err, w1) \<Rightarrow>
                     (Some (Errorf [errPrefix, ''Error '', sq, Error err, sq,
                                    ''creating keyring'']), w1)
                 | (None, w1) \<Rightarrow>
                     (let importKeyCmdArgs = baseArgs @ [''--import'', pubKeyPath]
                      in case RunSystemCmd h w1 gpgCmd importKeyCmdArgs of
                           (Some err, w2) \<Rightarrow>
                             (Some (Errorf [errPrefix, ''Error '', sq, Error err, sq,
                                            '' importing public-key '', pubKeyPath]), w2)
                         | (None, w2) \<Rightarrow>
                             (let verifySigArgs =
                                    baseArgs @ [''--verify'', tarballSigPath, tarballPath]
                              in case CheckOutput h w2 gpgCmd verifySigArgs of
                                   ((output, Some err), w3) \<Rightarrow>
                                     (Some (Errorf [errPrefix, ''Error verifying signature '',
                                                    tarballSigPath, '' for tarball '', tarballPath,
                                                    '' with pubkey '', pubKeyPath, ''.'',
                                                    nl, ''gpg --verify err: '', Error err,
                                                    ''stdout:'', output]), w3)
                                 | ((output, None), w3) \<Rightarrow> (None, w3))))
            w0)"

text \<open>
  In \<open>VerifyGitSignature\<close> the \<open>else\<close> branch of the choice of \<open>verifyRepoCmd\<close> returns
  at once; \<open>Inl\<close> carries the error of that return, \<open>Inr\<close> the git command to run.
\<close>

definition VerifyGitSignature ::
  "host \<Rightarrow> world \<Rightarrow> string \<Rightarrow> GitSpec \<Rightarrow> ErrPrefix \<Rightarrow> go_error option \<times> world" where
  "VerifyGitSignature h w pubKeyPath gitSpec errPrefix =
     (case os_MkdirTemp h w '''' ''eext-keyring'' of
        (Inl mkdtErr, w0) \<Rightarrow>
          (Some (Errorf [errPrefix, ''Error '', sq, Error mkdtErr, sq,
                         ''creating temp dir for keyring'']), w0)
      | (Inr tmpDir, w0) \<Rightarrow>
          deferred (\<lambda>w. snd (os_RemoveAll h w tmpDir))
            (\<lambda>w0.
              let keyRingPath = filepath_Join [tmpDir, ''eext.gpg''];
                  baseArgs = [''--homedir'', tmpDir,
                              ''--no-default-keyring'', ''--keyring'', keyRingPath];
                  gpgCmd = ''gpg'';
                  createKeyRingCmdArgs = baseArgs @ [''--fingerprint'']
              in case RunSystemCmd h w0 gpgCmd createKeyRingCmdArgs of
                   (Some err, w1) \<Rightarrow>
                     (Some (Errorf [errPrefix, ''Error '', sq, Error err, sq,
                                    ''creating keyring'']), w1)
                 | (None, w1) \<Rightarrow>
                     (let importKeyCmdArgs = baseArgs @ [''--import'', pubKeyPath]
                      in case RunSystemCmd h w1 gpgCmd importKeyCmdArgs of
                           (Some err, w2) \<Rightarrow>
                             (Some (Errorf [errPrefix, ''Error '', sq, Error err, sq,
                                            '' importing public-key '', pubKeyPath]), w2)
                         | (None, w2) \<Rightarrow>
                             (let revision = Revision gitSpec;
                                  revisionType = typeOfGitRevision gitSpec;
                                  verifyRepoCmd =
                                    (if revisionType = ''COMMIT''
                                     then Inr [''verify-commit'', ''-v'', revision]
                                     else if revisionType = ''TAG''
                                     then Inr [''verify-tag'', ''-v'', revision]
                                     else Inl (Errorf [errPrefix, ''invalid revision '', revision,
                                                 '' provided, provide either a COMMIT or TAG'']))
                              in case verifyRepoCmd of
                                   Inl invalid \<Rightarrow> (Some invalid, w2)
                                 | Inr verifyRepoCmd \<Rightarrow>
                                     (let clonedDir = ClonedDir gitSpec
                                      in case RunSystemCmdInDir h w2 clonedDir ''git''
                                                verifyRepoCmd of
                                           (Some err, w3) \<Rightarrow>
                                             (Some (Errorf [errPrefix,
                                                      ''error during verifying git repo at '',
                                                      clonedDir, '': '', Error err]), w3)
                                         | (None, w3) \<Rightarrow> (None, w3)))))
            w0)"

section \<open>Vocabulary of the properties\<close>

text \<open>
  The commands a call started are those that joined the history between the world
  \<open>w\<close> the call received and the world \<open>w'\<close> it left; \<open>keyring_args\<close> are the options
  that direct gpg at the keyring of the temporary directory.
\<close>

definition issued :: "world \<Rightarrow> world \<Rightarrow> Cmd list" where
  "issued w w' = drop (length (started w)) (started w')"

definition keyring_args :: "string \<Rightarrow> string list" where
  "keyring_args tmpDir =
     [''--homedir'', tmpDir, ''--no-default-keyring'', ''--keyring'',
      filepath_Join [tmpDir, ''eext.gpg'']]"

definition gpg :: "string list \<Rightarrow> Cmd" where
  "gpg args = exec_Command ''gpg'' args"

section \<open>Example hosts\<close>

text \<open>
  A world with an empty history, and four hosts: one on which every program succeeds
  (gpg leaves its keyring file, rpm reports good signatures), one on which every program
  exits with status 1, one on which rpm exits with status 0 without the marker, and one
  on which no program can be started and no temporary directory can be made.
\<close>

definition w_init :: world where
  "w_init = \<lparr>Quiet = False, files = {''/tmp''}, started = [], os_Stdout = ''''\<rparr>"

definition h_ok :: host where
  "h_ok = \<lparr>TMPDIR = '''', mkdir_random = (\<lambda>w. Inr 42),
            spawn = (\<lambda>c w.
              \<lparr>p_stdout = (if Name c = ''rpm'' then ''pkg.rpm: digests signatures OK'' else ''''),
               p_err = None,
               p_files = (if Name c = ''gpg''
                          then insert ''/tmp/eext-keyring42/eext.gpg'' (files w)
                          else files w)\<rparr>),
     realpath = lexical_realpath ''/'', locked = {}\<rparr>"

definition h_fail :: host where
  "h_fail = \<lparr>TMPDIR = '''', mkdir_random = (\<lambda>w. Inr 42),
              spawn = (\<lambda>c w.
                \<lparr>p_stdout = '''',
                 p_err = Some (ExitError 1 ''no such file'' ''exit status 1''),
                 p_files = files w\<rparr>),
     realpath = lexical_realpath ''/'', locked = {}\<rparr>"


definition h_broken :: host where
  "h_broken = \<lparr>TMPDIR = '''', mkdir_random = (\<lambda>w. Inl (errorString ''no space left on device'')),
                spawn = (\<lambda>c w.
                  \<lparr>p_stdout = '''',
                   p_err = Some (errorString ''executable file not found''),
                   p_files = files w\<rparr>),
     realpath = lexical_realpath ''/'', locked = {}\<rparr>"


definition h_alias :: host where
  "h_alias = \<lparr>TMPDIR = ''/a//tmp'', mkdir_random = (\<lambda>w. Inr 42),
               spawn = (\<lambda>c w.
                 \<lparr>p_stdout = '''',
                  p_err = None,
                  p_files = (if Name c = ''gpg''
                             then insert ''/a/tmp/eext-keyring42/eext.gpg'' (files w)
                             else files w)\<rparr>),
               realpath = lexical_realpath ''/'', locked = {}\<rparr>"

definition w_alias :: world where
  "w_alias = \<lparr>Quiet = False, files = {''/a/tmp''}, started = [], os_Stdout = ''''\<rparr>"

definition spec_tag :: GitSpec where
  "spec_tag = \<lparr>Revision = ''v1.2.0'', ClonedDir = ''/src/repo''\<rparr>"

definition spec_commit :: GitSpec where
  "spec_commit = \<lparr>Revision = ''abcdef0123456789abcdef0123456789abcdef01'',
                   ClonedDir = ''/src/repo''\<rparr>"

definition spec_empty :: GitSpec where
  "spec_empty = \<lparr>Revision = '''', ClonedDir = ''/src/repo''\<rparr>"

text \<open>The worlds that the successful host goes through while the keyring is set up.\<close>

definition w_ok0 :: world where
  "w_ok0 = \<lparr>Quiet = False, files = {''/tmp/eext-keyring42'', ''/tmp''}, started = [],
            os_Stdout = ''''\<rparr>"

definition w_ok1 :: world where
  "w_ok1 = \<lparr>Quiet = False,
            files = {''/tmp/eext-keyring42/eext.gpg'', ''/tmp/eext-keyring42'', ''/tmp''},
            started = [gpg (keyring_args ''/tmp/eext-keyring42'' @ [''--fingerprint''])],
            os_Stdout = ''''\<rparr>"

definition w_ok2 :: world where
  "w_ok2 = \<lparr>Quiet = False,
            files = {''/tmp/eext-keyring42/eext.gpg'', ''/tmp/eext-keyring42'', ''/tmp''},
            started = [gpg (keyring_args ''/tmp/eext-keyring42'' @ [''--fingerprint'']),
                       gpg (keyring_args ''/tmp/eext-keyring42'' @ [''--import'', ''k.pub''])],
            os_Stdout = ''''\<rparr>"

section \<open>Auxiliary facts\<close>

lemma Uitoa_not_Nil: "Uitoa n \<noteq> []"
  by (subst Uitoa.simps) simp

lemma last_Uitoa: "last (Uitoa n) = char_of (48 + n mod 10)"
  by (subst Uitoa.simps) simp

lemma digit_not_dot: "char_of (48 + n mod 10 :: nat) \<noteq> CHR ''.''"
proof
  assume "char_of (48 + n mod 10) = CHR ''.''"
  then have "of_char (char_of (48 + n mod 10) :: char) = (of_char CHR ''.'' :: nat)"
    by simp
  then have eq: "(48 + n mod 10) mod 256 = (46::nat)"
    by (simp add: of_char_of)
  have "n mod 10 < 10" by simp
  then have "48 + n mod 10 < 256" by linarith
  then have "(48 + n mod 10) mod 256 = 48 + n mod 10" by (rule mod_less)
  with eq show False by linarith
qed

lemma endsWithDot_last: "endsWithDot p \<Longrightarrow> last p = CHR ''.''"
  by (auto simp: endsWithDot_def)

lemma not_endsWithDot_Uitoa: "\<not> endsWithDot (xs @ Uitoa r)"
proof
  assume "endsWithDot (xs @ Uitoa r)"
  then have "last (xs @ Uitoa r) = CHR ''.''"
    by (rule endsWithDot_last)
  then show False
    by (simp add: Uitoa_not_Nil last_Uitoa digit_not_dot)
qed

lemma MkdirTemp_name:
  assumes "fst (os_MkdirTemp h w dir pattern) = Inr d"
  shows "d \<noteq> [] \<and> \<not> endsWithDot d \<and> d \<notin> files w \<and> d \<in> files (snd (os_MkdirTemp h w dir pattern))"
  using assms
  by (auto simp: os_MkdirTemp_def Let_def Uitoa_not_Nil not_endsWithDot_Uitoa
           split: sum.splits if_splits)




lemma snd_deferred: "snd (deferred f body w) = f (snd (body w))"
  by (simp add: deferred_def split: prod.splits)



lemma Uitoa_42: "Uitoa 42 = ''42''"
  by code_simp

lemma rp:
  "lexical_realpath ''/'' ''/tmp'' = ''/tmp''"
  "lexical_realpath ''/'' ''/tmp/eext-keyring42'' = ''/tmp/eext-keyring42''"
  "lexical_realpath ''/'' ''/tmp/eext-keyring42/eext.gpg'' = ''/tmp/eext-keyring42/eext.gpg''"
  "lexical_realpath ''/'' ''/tmp/eext-keyring42/private-keys-v1.d'' =
     ''/tmp/eext-keyring42/private-keys-v1.d''"
  "lexical_realpath ''/'' ''/a/tmp'' = ''/a/tmp''"
  "lexical_realpath ''/'' ''/a//tmp/eext-keyring42'' = ''/a/tmp/eext-keyring42''"
  "lexical_realpath ''/'' ''/a/tmp/eext-keyring42/eext.gpg'' = ''/a/tmp/eext-keyring42/eext.gpg''"
  by (simp_all add: lexical_realpath_def filepath_Clean_def)

lemma MkdirTemp_h_ok:
  "os_MkdirTemp h_ok w_init '''' ''eext-keyring'' =
     (Inr ''/tmp/eext-keyring42'', w_init\<lparr>files := {''/tmp/eext-keyring42'', ''/tmp''}\<rparr>)"
  by (simp add: os_MkdirTemp_def h_ok_def w_init_def os_TempDir_def joinPath_def Uitoa_42 Let_def rp)

lemma Join_42: "filepath_Join [''/tmp/eext-keyring42'', ''eext.gpg''] = ''/tmp/eext-keyring42/eext.gpg''"
  by (simp add: filepath_Join_def filepath_Clean_def)

lemma Join_alias:
  "filepath_Join [''/a//tmp/eext-keyring42'', ''eext.gpg''] = ''/a/tmp/eext-keyring42/eext.gpg''"
  by (simp add: filepath_Join_def filepath_Clean_def)

lemmas run_defs =
  RunSystemCmd_def RunSystemCmdInDir_def CheckOutput_def exec_Run_def exec_Command_def
  typeOfGitRevision_def
  os_RemoveAll_def endsWithDot_def inside_def under_def Errorf_def Let_def

lemma Tarball_h_ok:
  "VerifyTarballSignature h_ok w_init ''t.tar'' ''t.sig'' ''k.pub'' ''pfx: '' =
     (None, \<lparr>Quiet = False, files = {''/tmp''},
             started = [gpg (keyring_args ''/tmp/eext-keyring42'' @ [''--fingerprint'']),
                        gpg (keyring_args ''/tmp/eext-keyring42'' @ [''--import'', ''k.pub'']),
                        gpg (keyring_args ''/tmp/eext-keyring42'' @ [''--verify'', ''t.sig'', ''t.tar''])],
             os_Stdout = ''''\<rparr>)"
  apply (simp add: VerifyTarballSignature_def MkdirTemp_h_ok deferred_def Join_42 gpg_def keyring_args_def)
  apply (simp add: run_defs h_ok_def w_init_def rp)
  apply (auto simp: rp)
  done

lemma Git_h_ok:
  "VerifyGitSignature h_ok w_init ''k.pub'' spec_tag ''pfx: '' =
     (Some (errorString ''pfx: invalid revision v1.2.0 provided, provide either a COMMIT or TAG''),
      \<lparr>Quiet = False, files = {''/tmp''},
             started = [gpg (keyring_args ''/tmp/eext-keyring42'' @ [''--fingerprint'']),
                        gpg (keyring_args ''/tmp/eext-keyring42'' @ [''--import'', ''k.pub''])],
             os_Stdout = ''''\<rparr>)"
  apply (simp add: VerifyGitSignature_def MkdirTemp_h_ok deferred_def Join_42 gpg_def keyring_args_def)
  apply (simp add: run_defs h_ok_def w_init_def spec_tag_def rp)
  apply (auto simp: rp)
  done

lemma MkdirTemp_h_fail:
  "os_MkdirTemp h_fail w_init '''' ''eext-keyring'' =
     (Inr ''/tmp/eext-keyring42'', w_init\<lparr>files := {''/tmp/eext-keyring42'', ''/tmp''}\<rparr>)"
  by (simp add: os_MkdirTemp_def h_fail_def w_init_def os_TempDir_def joinPath_def Uitoa_42 Let_def rp)

lemma Git_h_fail:
  "VerifyGitSignature h_fail w_init ''k.pub'' spec_tag ''pfx: '' =
     (Some (errorString (''pfx: Error '' @ sq @ ''exit status 1'' @ sq @ ''creating keyring'')),
      \<lparr>Quiet = False, files = {''/tmp''},
             started = [gpg (keyring_args ''/tmp/eext-keyring42'' @ [''--fingerprint''])],
             os_Stdout = ''''\<rparr>)"
  apply (simp add: VerifyGitSignature_def MkdirTemp_h_fail deferred_def Join_42 gpg_def keyring_args_def)
  apply (simp add: run_defs h_fail_def w_init_def spec_tag_def rp)
  apply (auto simp: rp)
  done






lemma fields_h_alias:
  "TMPDIR h_alias = ''/a//tmp''"
  "mkdir_random h_alias w = Inr 42"
  "realpath h_alias = lexical_realpath ''/''"
  "locked h_alias = {}"
  "p_err (spawn h_alias c w) = None"
  "p_stdout (spawn h_alias c w) = ''''"
  "p_files (spawn h_alias (exec_Command ''gpg'' args) w) =
     insert ''/a/tmp/eext-keyring42/eext.gpg'' (files w)"
  by (simp_all add: h_alias_def exec_Command_def)

lemma inside_h_alias:
  "\<not> inside h_alias ''/a//tmp/eext-keyring42'' ''/a/tmp''"
  "inside h_alias ''/a//tmp/eext-keyring42'' ''/a//tmp/eext-keyring42''"
  "inside h_alias ''/a//tmp/eext-keyring42'' ''/a/tmp/eext-keyring42/eext.gpg''"
  by (simp_all add: inside_def under_def fields_h_alias rp)

lemma MkdirTemp_h_alias:
  "os_MkdirTemp h_alias w_alias '''' ''eext-keyring'' =
     (Inr ''/a//tmp/eext-keyring42'', w_alias\<lparr>files := {''/a//tmp/eext-keyring42'', ''/a/tmp''}\<rparr>)"
  by (simp add: os_MkdirTemp_def fields_h_alias w_alias_def os_TempDir_def joinPath_def Uitoa_42
                Let_def rp)

lemma RemoveAll_h_alias:
  assumes "files w = {''/a/tmp/eext-keyring42/eext.gpg'', ''/a//tmp/eext-keyring42'', ''/a/tmp''}"
  shows "files (snd (os_RemoveAll h_alias w ''/a//tmp/eext-keyring42'')) = {''/a/tmp''}"
  using inside_h_alias
  by (auto simp: os_RemoveAll_def Let_def endsWithDot_def fields_h_alias assms)

lemma Tarball_h_alias:
  "files (snd (VerifyTarballSignature h_alias w_alias ''t.tar'' ''t.sig'' ''k.pub'' ''pfx: ''))
     = {''/a/tmp''}"
proof -
  let ?body = "\<lparr>Quiet = False,
      files = {''/a/tmp/eext-keyring42/eext.gpg'', ''/a//tmp/eext-keyring42'', ''/a/tmp''},
      started = [gpg (keyring_args ''/a//tmp/eext-keyring42'' @ [''--fingerprint'']),
                 gpg (keyring_args ''/a//tmp/eext-keyring42'' @ [''--import'', ''k.pub'']),
                 gpg (keyring_args ''/a//tmp/eext-keyring42'' @ [''--verify'', ''t.sig'', ''t.tar''])],
      os_Stdout = ''''\<rparr>"
  have run: "VerifyTarballSignature h_alias w_alias ''t.tar'' ''t.sig'' ''k.pub'' ''pfx: '' =
               (None, snd (os_RemoveAll h_alias ?body ''/a//tmp/eext-keyring42''))"
    apply (simp add: VerifyTarballSignature_def MkdirTemp_h_alias deferred_def Join_alias gpg_def keyring_args_def)
    apply (simp add: RunSystemCmd_def CheckOutput_def exec_Run_def Let_def fields_h_alias w_alias_def
                     insert_commute)
    done
  show ?thesis
    unfolding run by (simp only: snd_conv) (rule RemoveAll_h_alias, simp)
qed

subsection \<open>Messages\<close>

lemma sublist_concat: "x \<in> set xs \<Longrightarrow> sublist x (concat xs)"
proof -
  assume "x \<in> set xs"
  then obtain ys zs where "xs = ys @ x # zs"
    by (auto dest: split_list)
  then have "concat xs = concat ys @ x @ concat zs"
    by simp
  then show ?thesis
    by (simp only: sublist_appendI)
qed

lemma sublist_Errorf: "x \<in> set pieces \<Longrightarrow> sublist x (Error (Errorf pieces))"
  by (simp add: Errorf_def sublist_concat)

lemma prefix_Errorf: "prefix x (Error (Errorf (x # xs)))"
  by (simp add: Errorf_def)

lemma Errorf_is_errorString: "Errorf pieces = errorString (Error (Errorf pieces))"
  by (simp add: Errorf_def)

subsection \<open>Commands started by each step\<close>

lemma issuedI: "started w' = started w @ xs \<Longrightarrow> issued w w' = xs"
  by (simp add: issued_def)

lemma RunSystemCmdD:
  "RunSystemCmd h w name arg = (r, w') \<Longrightarrow>
     started w' = started w @ [(exec_Command name arg)]
     \<and> r = p_err (spawn h (exec_Command name arg) w)"
  by (auto simp: RunSystemCmd_def exec_Run_def Let_def split: if_splits)

lemma CheckOutput_eq:
  "CheckOutput h w name arg =
     ((p_stdout (spawn h (exec_Command name arg) w),
       (case p_err (spawn h (exec_Command name arg) w) of
          None \<Rightarrow> None
        | Some (ExitError code stderr st) \<Rightarrow>
            Some (Errorf [''Running '', sq, name, '' '', strings_Join arg '' '', sq,
                          '': exited with exit-code '', Itoa code, nl, ''stderr:'', nl, stderr])
        | Some (errorString msg) \<Rightarrow>
            Some (Errorf [''Running '', sq, name, '' '', strings_Join arg '' '', sq,
                          '' failed with '', sq, msg, sq]))),
      snd (exec_Run h w (exec_Command name arg)))"
  by (simp add: CheckOutput_def exec_Run_def Let_def split: option.splits go_error.splits)

lemma CheckOutputD:
  "CheckOutput h w name arg = (r, w') \<Longrightarrow>
     started w' = started w @ [(exec_Command name arg)]"
  by (auto simp: CheckOutput_eq exec_Run_def Let_def)

lemma MkdirTempD:
  "os_MkdirTemp h w dir pattern = (r, w') \<Longrightarrow> started w' = started w"
  by (auto simp: os_MkdirTemp_def Let_def split: sum.splits if_splits)

lemma RemoveAll_started: "started (snd (os_RemoveAll h w d)) = started w"
  by (simp add: os_RemoveAll_def)

lemma Tarball_started:
  assumes mk: "os_MkdirTemp h w '''' ''eext-keyring'' = (Inr tmpDir, w0)"
  shows "\<exists>xs. started (snd (VerifyTarballSignature h w tarballPath tarballSigPath pubKeyPath errPrefix))
                = started w @ xs
            \<and> prefix xs [gpg (keyring_args tmpDir @ [''--fingerprint'']),
                         gpg (keyring_args tmpDir @ [''--import'', pubKeyPath]),
                         gpg (keyring_args tmpDir @ [''--verify'', tarballSigPath, tarballPath])]"
proof -
  have s0: "started w0 = started w"
    using MkdirTempD [OF mk] .
  show ?thesis
    unfolding VerifyTarballSignature_def mk
    by (auto simp: snd_deferred RemoveAll_started s0 Let_def gpg_def keyring_args_def
             split: prod.splits option.splits
             dest!: RunSystemCmdD CheckOutputD)
qed

lemma Git_started:
  assumes mk: "os_MkdirTemp h w '''' ''eext-keyring'' = (Inr tmpDir, w0)"
  shows "\<exists>xs. started (snd (VerifyGitSignature h w pubKeyPath gitSpec errPrefix))
                = started w @ xs
            \<and> prefix xs [gpg (keyring_args tmpDir @ [''--fingerprint'']),
                         gpg (keyring_args tmpDir @ [''--import'', pubKeyPath])]"
proof -
  have s0: "started w0 = started w"
    using MkdirTempD [OF mk] .
  show ?thesis
    unfolding VerifyGitSignature_def mk
    by (auto simp: snd_deferred RemoveAll_started s0 Let_def gpg_def keyring_args_def
                   typeOfGitRevision_def
             split: prod.splits option.splits
             dest!: RunSystemCmdD)
qed

subsection \<open>Results of the git check\<close>

lemma Git_after_setup:
  assumes "typeOfGitRevision gitSpec \<noteq> ''COMMIT''" "typeOfGitRevision gitSpec \<noteq> ''TAG''"
    and "os_MkdirTemp h w '''' ''eext-keyring'' = (Inr tmpDir, w0)"
    and "RunSystemCmd h w0 ''gpg'' (keyring_args tmpDir @ [''--fingerprint'']) = (None, w1)"
    and "RunSystemCmd h w1 ''gpg'' (keyring_args tmpDir @ [''--import'', pubKeyPath]) = (None, w2)"
  shows "VerifyGitSignature h w pubKeyPath gitSpec errPrefix =
           (Some (Errorf [errPrefix, ''invalid revision '', Revision gitSpec,
                          '' provided, provide either a COMMIT or TAG'']),
            snd (os_RemoveAll h w2 tmpDir))"
  using assms
  by (simp add: VerifyGitSignature_def deferred_def Let_def keyring_args_def)

lemma Git_issued_gpg:
  "\<forall>c \<in> set (issued w (snd (VerifyGitSignature h w pubKeyPath gitSpec errPrefix))). Name c = ''gpg''"
proof (cases "os_MkdirTemp h w '''' ''eext-keyring''")
  case (Pair r w0)
  show ?thesis
  proof (cases r)
    case (Inl e)
    with Pair have "started (snd (VerifyGitSignature h w pubKeyPath gitSpec errPrefix)) = started w"
      by (simp add: VerifyGitSignature_def MkdirTempD [OF Pair])
    then show ?thesis
      by (simp add: issued_def)
  next
    case (Inr tmpDir)
    with Pair have mk: "os_MkdirTemp h w '''' ''eext-keyring'' = (Inr tmpDir, w0)"
      by simp
    from Git_started [OF mk] obtain xs where
      xs: "started (snd (VerifyGitSignature h w pubKeyPath gitSpec errPrefix)) = started w @ xs"
          "prefix xs [gpg (keyring_args tmpDir @ [''--fingerprint'']),
                      gpg (keyring_args tmpDir @ [''--import'', pubKeyPath])]"
      by blast
    from xs(2) have "set xs \<subseteq> set [gpg (keyring_args tmpDir @ [''--fingerprint'']),
                                   gpg (keyring_args tmpDir @ [''--import'', pubKeyPath])]"
      by (rule set_mono_prefix)
    then have "\<forall>c \<in> set xs. Name c = ''gpg''"
      by (auto simp: gpg_def exec_Command_def)
    then show ?thesis
      by (simp add: issuedI [OF xs(1)])
  qed
qed

lemma Git_issued_after_setup:
  assumes "typeOfGitRevision gitSpec \<noteq> ''COMMIT''" "typeOfGitRevision gitSpec \<noteq> ''TAG''"
    and mk: "os_MkdirTemp h w '''' ''eext-keyring'' = (Inr tmpDir, w0)"
    and r1: "RunSystemCmd h w0 ''gpg'' (keyring_args tmpDir @ [''--fingerprint'']) = (None, w1)"
    and r2: "RunSystemCmd h w1 ''gpg'' (keyring_args tmpDir @ [''--import'', pubKeyPath]) = (None, w2)"
  shows "issued w (snd (VerifyGitSignature h w pubKeyPath gitSpec errPrefix)) =
           [gpg (keyring_args tmpDir @ [''--fingerprint'']),
            gpg (keyring_args tmpDir @ [''--import'', pubKeyPath])]"
proof -
  have "started w2 = started w @ [gpg (keyring_args tmpDir @ [''--fingerprint'']),
                                   gpg (keyring_args tmpDir @ [''--import'', pubKeyPath])]"
    using MkdirTempD [OF mk] RunSystemCmdD [OF r1] RunSystemCmdD [OF r2]
    by (simp add: gpg_def)
  then show ?thesis
    by (simp add: Git_after_setup [OF assms] RemoveAll_started issued_def)
qed

lemma mk_fail_started:
  assumes "os_MkdirTemp h w '''' ''eext-keyring'' = (Inl e, w0)"
  shows "started (snd (VerifyTarballSignature h w tarballPath tarballSigPath pubKeyPath errPrefix))
           = started w"
    and "started (snd (VerifyGitSignature h w pubKeyPath gitSpec errPrefix)) = started w"
  using MkdirTempD [OF assms]
  by (simp_all add: VerifyTarballSignature_def VerifyGitSignature_def assms)

subsection \<open>The prefix of every failure\<close>

lemma Rpm_prefix:
  "fst (VerifyRpmSignature h w rpmPath errPrefix) = Some e \<Longrightarrow> prefix errPrefix (Error e)"
  by (auto simp: VerifyRpmSignature_def CheckOutput_eq prefix_Errorf
           split: option.splits go_error.splits if_splits)

lemma Tarball_prefix:
  "fst (VerifyTarballSignature h w tarballPath tarballSigPath pubKeyPath errPrefix) = Some e
     \<Longrightarrow> prefix errPrefix (Error e)"
  by (auto simp: VerifyTarballSignature_def deferred_def Let_def prefix_Errorf
           split: prod.splits sum.splits option.splits)

lemma Git_prefix:
  "fst (VerifyGitSignature h w pubKeyPath gitSpec errPrefix) = Some e
     \<Longrightarrow> prefix errPrefix (Error e)"
  by (auto simp: VerifyGitSignature_def deferred_def Let_def prefix_Errorf
           split: prod.splits sum.splits option.splits if_splits)

subsection \<open>The example hosts at work\<close>

lemma Itoa_1: "Itoa 1 = ''1''"
  by code_simp

lemma Run1_h_ok:
  "RunSystemCmd h_ok w_ok0 ''gpg'' (keyring_args ''/tmp/eext-keyring42'' @ [''--fingerprint''])
     = (None, w_ok1)"
  by (simp add: run_defs h_ok_def w_ok0_def w_ok1_def gpg_def)

lemma Run2_h_ok:
  "RunSystemCmd h_ok w_ok1 ''gpg'' (keyring_args ''/tmp/eext-keyring42'' @ [''--import'', ''k.pub''])
     = (None, w_ok2)"
  by (simp add: run_defs h_ok_def w_ok1_def w_ok2_def gpg_def)

lemma MkdirTemp_h_ok0:
  "os_MkdirTemp h_ok w_init '''' ''eext-keyring'' = (Inr ''/tmp/eext-keyring42'', w_ok0)"
  using MkdirTemp_h_ok by (simp add: w_init_def w_ok0_def)

lemma MkdirTemp_h_broken:
  "os_MkdirTemp h_broken w_init '''' ''eext-keyring'' =
     (Inl (errorString ''no space left on device''), w_init)"
  by (simp add: os_MkdirTemp_def h_broken_def)

lemma Tarball_h_fail:
  "fst (VerifyTarballSignature h_fail w_init ''t.tar'' ''t.sig'' ''k.pub'' ''pfx: '') =
     Some (errorString (''pfx: Error '' @ sq @ ''exit status 1'' @ sq @ ''creating keyring''))"
  apply (simp add: VerifyTarballSignature_def MkdirTemp_h_fail deferred_def Join_42)
  apply (simp add: run_defs h_fail_def w_init_def)
  done

lemma Rpm_h_fail:
  "fst (VerifyRpmSignature h_fail w_init ''pkg.rpm'' ''pfx: '') =
     Some (errorString (''pfx: :Running '' @ sq @ ''rpm -K pkg.rpm'' @ sq
                        @ '': exited with exit-code 1'' @ nl @ ''stderr:'' @ nl @ ''no such file''))"
  by (simp add: VerifyRpmSignature_def run_defs h_fail_def w_init_def Itoa_1)

lemma started_w_init: "started w_init = []"
  by (simp add: w_init_def)

lemma issued_Git_h_ok:
  "issued w_init (snd (VerifyGitSignature h_ok w_init ''k.pub'' spec_tag ''pfx: '')) =
     [gpg (keyring_args ''/tmp/eext-keyring42'' @ [''--fingerprint'']),
      gpg (keyring_args ''/tmp/eext-keyring42'' @ [''--import'', ''k.pub''])]"
  by (simp add: issued_def Git_h_ok started_w_init)

lemma issued_Tarball_h_ok:
  "issued w_init (snd (VerifyTarballSignature h_ok w_init ''t.tar'' ''t.sig'' ''k.pub'' ''pfx: '')) =
     [gpg (keyring_args ''/tmp/eext-keyring42'' @ [''--fingerprint'']),
      gpg (keyring_args ''/tmp/eext-keyring42'' @ [''--import'', ''k.pub'']),
      gpg (keyring_args ''/tmp/eext-keyring42'' @ [''--verify'', ''t.sig'', ''t.tar''])]"
  by (simp add: issued_def Tarball_h_ok started_w_init)

lemma spawn_h_ok:
  "p_err (spawn h_ok c w) = None"
  "p_stdout (spawn h_ok (exec_Command ''rpm'' args) w) = ''pkg.rpm: digests signatures OK''"
  by (simp_all add: h_ok_def exec_Command_def)

lemma spawn_h_fail:
  "p_err (spawn h_fail c w) = Some (ExitError 1 ''no such file'' ''exit status 1'')"
  "p_stdout (spawn h_fail c w) = ''''"
  by (simp_all add: h_fail_def)


lemma spawn_h_broken:
  "p_err (spawn h_broken c w) = Some (errorString ''executable file not found'')"
  "p_stdout (spawn h_broken c w) = ''''"
  by (simp_all add: h_broken_def)



section \<open>The claims\<close>




text \<open>
  C2. When the temporary directory cannot be made no program is started. When it is
  made it is new, and the programs that \<open>VerifyTarballSignature\<close> starts are, in this
  order and as far as the call gets, gpg creating the keyring, gpg importing the public
  key of the caller and gpg verifying the signature; those of \<open>VerifyGitSignature\<close> are
  the first two. Each of them is gpg with the home directory set to the temporary
  directory, the default keyring disabled and the keyring file of that directory given.
\<close>

theorem gpg_only_on_ephemeral_keyring:
  "(\<forall>e. fst (os_MkdirTemp h w '''' ''eext-keyring'') = Inl e \<longrightarrow>
        issued w (snd (VerifyTarballSignature h w tarballPath tarballSigPath pubKeyPath errPrefix)) = []
        \<and> issued w (snd (VerifyGitSignature h w pubKeyPath gitSpec errPrefix)) = [])
   \<and> (\<forall>tmpDir. fst (os_MkdirTemp h w '''' ''eext-keyring'') = Inr tmpDir \<longrightarrow>
        tmpDir \<notin> files w
        \<and> prefix
            (issued w (snd (VerifyTarballSignature h w tarballPath tarballSigPath pubKeyPath errPrefix)))
            [gpg (keyring_args tmpDir @ [''--fingerprint'']),
             gpg (keyring_args tmpDir @ [''--import'', pubKeyPath]),
             gpg (keyring_args tmpDir @ [''--verify'', tarballSigPath, tarballPath])]
        \<and> prefix
            (issued w (snd (VerifyGitSignature h w pubKeyPath gitSpec errPrefix)))
            [gpg (keyring_args tmpDir @ [''--fingerprint'']),
             gpg (keyring_args tmpDir @ [''--import'', pubKeyPath])]
        \<and> (\<forall>c \<in> set (issued w (snd (VerifyTarballSignature h w tarballPath tarballSigPath
                                        pubKeyPath errPrefix)))
                   \<union> set (issued w (snd (VerifyGitSignature h w pubKeyPath gitSpec errPrefix))).
              Name c = ''gpg''
              \<and> take 5 (Args c) = [''--homedir'', tmpDir, ''--no-default-keyring'', ''--keyring'',
                                    filepath_Join [tmpDir, ''eext.gpg'']]))"
proof (intro conjI allI impI)
  fix e
  assume "fst (os_MkdirTemp h w '''' ''eext-keyring'') = Inl e"
  then obtain w0 where mk: "os_MkdirTemp h w '''' ''eext-keyring'' = (Inl e, w0)"
    by (cases "os_MkdirTemp h w '''' ''eext-keyring''") simp
  show "issued w (snd (VerifyTarballSignature h w tarballPath tarballSigPath pubKeyPath errPrefix)) = []"
    by (simp add: issued_def mk_fail_started(1) [OF mk])
  show "issued w (snd (VerifyGitSignature h w pubKeyPath gitSpec errPrefix)) = []"
    by (simp add: issued_def mk_fail_started(2) [OF mk])
next
  fix tmpDir
  assume a: "fst (os_MkdirTemp h w '''' ''eext-keyring'') = Inr tmpDir"
  then obtain w0 where mk: "os_MkdirTemp h w '''' ''eext-keyring'' = (Inr tmpDir, w0)"
    by (cases "os_MkdirTemp h w '''' ''eext-keyring''") simp
  let ?T = "issued w (snd (VerifyTarballSignature h w tarballPath tarballSigPath pubKeyPath errPrefix))"
  let ?G = "issued w (snd (VerifyGitSignature h w pubKeyPath gitSpec errPrefix))"
  let ?c1 = "gpg (keyring_args tmpDir @ [''--fingerprint''])"
  let ?c2 = "gpg (keyring_args tmpDir @ [''--import'', pubKeyPath])"
  let ?c3 = "gpg (keyring_args tmpDir @ [''--verify'', tarballSigPath, tarballPath])"
  show "tmpDir \<notin> files w"
    using MkdirTemp_name [OF a] by simp
  show t: "prefix ?T [?c1, ?c2, ?c3]"
    using Tarball_started [OF mk, of tarballPath tarballSigPath pubKeyPath errPrefix]
    by (auto simp: issued_def)
  show g: "prefix ?G [?c1, ?c2]"
    using Git_started [OF mk, of pubKeyPath gitSpec errPrefix]
    by (auto simp: issued_def)
  have "set ?T \<subseteq> set [?c1, ?c2, ?c3]"
    using t by (rule set_mono_prefix)
  moreover have "set ?G \<subseteq> set [?c1, ?c2]"
    using g by (rule set_mono_prefix)
  ultimately have sub: "set ?T \<union> set ?G \<subseteq> {?c1, ?c2, ?c3}"
    by auto
  show "\<forall>c \<in> set ?T \<union> set ?G.
          Name c = ''gpg''
          \<and> take 5 (Args c) = [''--homedir'', tmpDir, ''--no-default-keyring'', ''--keyring'',
                                filepath_Join [tmpDir, ''eext.gpg'']]"
  proof
    fix c
    assume "c \<in> set ?T \<union> set ?G"
    with sub have "c = ?c1 \<or> c = ?c2 \<or> c = ?c3"
      by blast
    then show "Name c = ''gpg''
          \<and> take 5 (Args c) = [''--homedir'', tmpDir, ''--no-default-keyring'', ''--keyring'',
                                filepath_Join [tmpDir, ''eext.gpg'']]"
      by (auto simp: gpg_def exec_Command_def keyring_args_def)
  qed
qed

theorem gpg_only_on_ephemeral_keyring_witness:
  "fst (os_MkdirTemp h_broken w_init '''' ''eext-keyring'') = Inl (errorString ''no space left on device'')
   \<and> issued w_init (snd (VerifyTarballSignature h_broken w_init ''t.tar'' ''t.sig'' ''k.pub'' ''pfx: '')) = []
   \<and> issued w_init (snd (VerifyGitSignature h_broken w_init ''k.pub'' spec_tag ''pfx: '')) = []
   \<and> fst (os_MkdirTemp h_ok w_init '''' ''eext-keyring'') = Inr ''/tmp/eext-keyring42''
   \<and> ''/tmp/eext-keyring42'' \<notin> files w_init
   \<and> issued w_init (snd (VerifyTarballSignature h_ok w_init ''t.tar'' ''t.sig'' ''k.pub'' ''pfx: '')) =
       [gpg (keyring_args ''/tmp/eext-keyring42'' @ [''--fingerprint'']),
        gpg (keyring_args ''/tmp/eext-keyring42'' @ [''--import'', ''k.pub'']),
        gpg (keyring_args ''/tmp/eext-keyring42'' @ [''--verify'', ''t.sig'', ''t.tar''])]
   \<and> Name (gpg (keyring_args ''/tmp/eext-keyring42'' @ [''--verify'', ''t.sig'', ''t.tar''])) = ''gpg''
   \<and> take 5 (Args (gpg (keyring_args ''/tmp/eext-keyring42'' @ [''--verify'', ''t.sig'', ''t.tar'']))) =
       [''--homedir'', ''/tmp/eext-keyring42'', ''--no-default-keyring'', ''--keyring'',
        ''/tmp/eext-keyring42/eext.gpg'']"
proof -
  note broken = gpg_only_on_ephemeral_keyring [of h_broken w_init "''t.tar''" "''t.sig''"
      "''k.pub''" "''pfx: ''" spec_tag]
  note ok = gpg_only_on_ephemeral_keyring [of h_ok w_init "''t.tar''" "''t.sig''"
      "''k.pub''" "''pfx: ''" spec_tag]
  have mkb: "fst (os_MkdirTemp h_broken w_init '''' ''eext-keyring'') =
               Inl (errorString ''no space left on device'')"
    by (simp add: MkdirTemp_h_broken)
  have mko: "fst (os_MkdirTemp h_ok w_init '''' ''eext-keyring'') = Inr ''/tmp/eext-keyring42''"
    by (simp add: MkdirTemp_h_ok)
  have mem: "gpg (keyring_args ''/tmp/eext-keyring42'' @ [''--verify'', ''t.sig'', ''t.tar''])
      \<in> set (issued w_init (snd (VerifyTarballSignature h_ok w_init ''t.tar'' ''t.sig'' ''k.pub'' ''pfx: '')))"
    by (simp add: issued_Tarball_h_ok)
  from broken mkb have
    "issued w_init (snd (VerifyTarballSignature h_broken w_init ''t.tar'' ''t.sig'' ''k.pub'' ''pfx: '')) = []
     \<and> issued w_init (snd (VerifyGitSignature h_broken w_init ''k.pub'' spec_tag ''pfx: '')) = []"
    by blast
  moreover from ok mko have "''/tmp/eext-keyring42'' \<notin> files w_init"
    by blast
  moreover from ok mko mem have
    "Name (gpg (keyring_args ''/tmp/eext-keyring42'' @ [''--verify'', ''t.sig'', ''t.tar''])) = ''gpg''
     \<and> take 5 (Args (gpg (keyring_args ''/tmp/eext-keyring42'' @ [''--verify'', ''t.sig'', ''t.tar'']))) =
       [''--homedir'', ''/tmp/eext-keyring42'', ''--no-default-keyring'', ''--keyring'',
        filepath_Join [''/tmp/eext-keyring42'', ''eext.gpg'']]"
    by blast
  ultimately show ?thesis
    using mkb mko by (simp add: issued_Tarball_h_ok Join_42)
qed



text \<open>
  C4. A revision that is classified as neither a commit nor a tag is reported only after
  the keyring has been set up: once the temporary directory, the keyring and the import
  have succeeded, \<open>VerifyGitSignature\<close> returns the error that names the revision, and
  the programs it has started are the two gpg commands of the setup and no git command.
\<close>

theorem VerifyGitSignature_invalid_revision:
  assumes "typeOfGitRevision gitSpec \<noteq> ''COMMIT''" "typeOfGitRevision gitSpec \<noteq> ''TAG''"
    and "os_MkdirTemp h w '''' ''eext-keyring'' = (Inr tmpDir, w0)"
    and "RunSystemCmd h w0 ''gpg'' (keyring_args tmpDir @ [''--fingerprint'']) = (None, w1)"
    and "RunSystemCmd h w1 ''gpg'' (keyring_args tmpDir @ [''--import'', pubKeyPath]) = (None, w2)"
  shows "fst (VerifyGitSignature h w pubKeyPath gitSpec errPrefix) =
           Some (errorString (errPrefix @ ''invalid revision '' @ Revision gitSpec
                              @ '' provided, provide either a COMMIT or TAG''))
       \<and> sublist (Revision gitSpec)
           (errPrefix @ ''invalid revision '' @ Revision gitSpec
              @ '' provided, provide either a COMMIT or TAG'')
       \<and> issued w (snd (VerifyGitSignature h w pubKeyPath gitSpec errPrefix)) =
           [gpg (keyring_args tmpDir @ [''--fingerprint'']),
            gpg (keyring_args tmpDir @ [''--import'', pubKeyPath])]"
proof -
  have "fst (VerifyGitSignature h w pubKeyPath gitSpec errPrefix) =
           Some (errorString (errPrefix @ ''invalid revision '' @ Revision gitSpec
                              @ '' provided, provide either a COMMIT or TAG''))"
    by (simp add: Git_after_setup [OF assms] Errorf_def)
  moreover have "sublist (Revision gitSpec)
           (errPrefix @ ''invalid revision '' @ Revision gitSpec
              @ '' provided, provide either a COMMIT or TAG'')"
    using sublist_appendI [of "Revision gitSpec" "errPrefix @ ''invalid revision ''"
        "'' provided, provide either a COMMIT or TAG''"]
    by simp
  ultimately show ?thesis
    using Git_issued_after_setup [OF assms] by simp
qed

theorem VerifyGitSignature_invalid_revision_witness:
  "typeOfGitRevision spec_tag \<noteq> ''COMMIT'' \<and> typeOfGitRevision spec_tag \<noteq> ''TAG''
   \<and> os_MkdirTemp h_ok w_init '''' ''eext-keyring'' = (Inr ''/tmp/eext-keyring42'', w_ok0)
   \<and> RunSystemCmd h_ok w_ok0 ''gpg'' (keyring_args ''/tmp/eext-keyring42'' @ [''--fingerprint''])
       = (None, w_ok1)
   \<and> RunSystemCmd h_ok w_ok1 ''gpg'' (keyring_args ''/tmp/eext-keyring42'' @ [''--import'', ''k.pub''])
       = (None, w_ok2)
   \<and> fst (VerifyGitSignature h_ok w_init ''k.pub'' spec_tag ''pfx: '') =
       Some (errorString ''pfx: invalid revision v1.2.0 provided, provide either a COMMIT or TAG'')
   \<and> issued w_init (snd (VerifyGitSignature h_ok w_init ''k.pub'' spec_tag ''pfx: '')) =
       [gpg (keyring_args ''/tmp/eext-keyring42'' @ [''--fingerprint'']),
        gpg (keyring_args ''/tmp/eext-keyring42'' @ [''--import'', ''k.pub''])]"
proof -
  have t: "typeOfGitRevision spec_tag \<noteq> ''COMMIT''" "typeOfGitRevision spec_tag \<noteq> ''TAG''"
    by (simp_all add: typeOfGitRevision_def)
  from VerifyGitSignature_invalid_revision [OF t MkdirTemp_h_ok0 Run1_h_ok Run2_h_ok, of "''pfx: ''"]
  show ?thesis
    using t by (simp add: MkdirTemp_h_ok0 Run1_h_ok Run2_h_ok spec_tag_def)
qed

theorem VerifyGitSignature_immediate_counterexample:
  "typeOfGitRevision spec_tag \<noteq> ''COMMIT'' \<and> typeOfGitRevision spec_tag \<noteq> ''TAG''
   \<and> issued w_init (snd (VerifyGitSignature h_ok w_init ''k.pub'' spec_tag ''pfx: '')) =
       [gpg (keyring_args ''/tmp/eext-keyring42'' @ [''--fingerprint'']),
        gpg (keyring_args ''/tmp/eext-keyring42'' @ [''--import'', ''k.pub''])]
   \<and> issued w_init (snd (VerifyGitSignature h_ok w_init ''k.pub'' spec_tag ''pfx: '')) \<noteq> []
   \<and> fst (VerifyGitSignature h_fail w_init ''k.pub'' spec_tag ''pfx: '') =
       Some (errorString (''pfx: Error '' @ sq @ ''exit status 1'' @ sq @ ''creating keyring''))
   \<and> \<not> sublist (Revision spec_tag)
           (''pfx: Error '' @ sq @ ''exit status 1'' @ sq @ ''creating keyring'')"
proof -
  have "\<not> sublist (Revision spec_tag)
           (''pfx: Error '' @ sq @ ''exit status 1'' @ sq @ ''creating keyring'')"
    by (simp add: spec_tag_def sq_def sublist_code)
  then show ?thesis
    by (simp add: typeOfGitRevision_def issued_Git_h_ok Git_h_fail)
qed

text \<open>
  C5. The claim asks for the tag name unchanged. The body of
  \<open>GetVersionFromRevision\<close> is only its closing \<open>return ""\<close>: for the tag \<open>v1.2.0\<close>
  the classification is the empty string and the version is the empty string, not the tag.
\<close>

theorem GetVersionFromRevision_tag:
  "typeOfGitRevision spec_tag = '''' \<and> GetVersionFromRevision spec_tag = ''''
   \<and> GetVersionFromRevision spec_tag \<noteq> Revision spec_tag"
  by (simp add: typeOfGitRevision_def GetVersionFromRevision_def spec_tag_def)

text \<open>
  C6. For a commit hash of 40 digits the version is the empty string: it is neither the
  hash nor its first ten digits.
\<close>

theorem GetVersionFromRevision_commit:
  "typeOfGitRevision spec_commit = '''' \<and> GetVersionFromRevision spec_commit = ''''
   \<and> GetVersionFromRevision spec_commit \<noteq> Revision spec_commit
   \<and> GetVersionFromRevision spec_commit \<noteq> take 10 (Revision spec_commit)"
  by (simp add: typeOfGitRevision_def GetVersionFromRevision_def spec_commit_def)

text \<open>
  C7. \<open>GetVersionFromRevision\<close> has a string as its only result, so it cannot report
  an error; for the empty revision, and for a revision that is classified as neither a
  commit nor a tag, the string it returns is the empty one.
\<close>

theorem GetVersionFromRevision_unclassified:
  assumes "Revision gitSpec = '''' \<or>
           (typeOfGitRevision gitSpec \<noteq> ''COMMIT'' \<and> typeOfGitRevision gitSpec \<noteq> ''TAG'')"
  shows "GetVersionFromRevision gitSpec = ''''"
  by (simp add: GetVersionFromRevision_def)

theorem GetVersionFromRevision_unclassified_witness:
  "(Revision spec_empty = '''' \<or>
      (typeOfGitRevision spec_empty \<noteq> ''COMMIT'' \<and> typeOfGitRevision spec_empty \<noteq> ''TAG''))
   \<and> GetVersionFromRevision spec_empty = ''''"
proof -
  have h: "Revision spec_empty = '''' \<or>
      (typeOfGitRevision spec_empty \<noteq> ''COMMIT'' \<and> typeOfGitRevision spec_empty \<noteq> ''TAG'')"
    by (simp add: spec_empty_def)
  from GetVersionFromRevision_unclassified [OF h] h show ?thesis
    by simp
qed

theorem GetVersionFromRevision_empty_counterexample:
  "Revision spec_empty = '''' \<and> GetVersionFromRevision spec_empty = ''''"
  by (simp add: GetVersionFromRevision_def spec_empty_def)

text \<open>
  C8. The message of every failure of \<open>VerifyRpmSignature\<close>, \<open>VerifyTarballSignature\<close>
  and \<open>VerifyGitSignature\<close> begins with the prefix the caller gave.
\<close>

theorem failures_begin_with_ErrPrefix:
  "(\<forall>e. fst (VerifyRpmSignature h w rpmPath errPrefix) = Some e \<longrightarrow> prefix errPrefix (Error e))
   \<and> (\<forall>e. fst (VerifyTarballSignature h w tarballPath tarballSigPath pubKeyPath errPrefix) = Some e
           \<longrightarrow> prefix errPrefix (Error e))
   \<and> (\<forall>e. fst (VerifyGitSignature h w pubKeyPath gitSpec errPrefix) = Some e
           \<longrightarrow> prefix errPrefix (Error e))"
  by (intro conjI allI impI) (erule Rpm_prefix Tarball_prefix Git_prefix)+

theorem failures_begin_with_ErrPrefix_witness:
  "fst (VerifyRpmSignature h_fail w_init ''pkg.rpm'' ''pfx: '') =
     Some (errorString (''pfx: :Running '' @ sq @ ''rpm -K pkg.rpm'' @ sq
                        @ '': exited with exit-code 1'' @ nl @ ''stderr:'' @ nl @ ''no such file''))
   \<and> prefix ''pfx: ''
        (Error (errorString (''pfx: :Running '' @ sq @ ''rpm -K pkg.rpm'' @ sq
                        @ '': exited with exit-code 1'' @ nl @ ''stderr:'' @ nl @ ''no such file'')))
   \<and> fst (VerifyTarballSignature h_fail w_init ''t.tar'' ''t.sig'' ''k.pub'' ''pfx: '') =
       Some (errorString (''pfx: Error '' @ sq @ ''exit status 1'' @ sq @ ''creating keyring''))
   \<and> fst (VerifyGitSignature h_fail w_init ''k.pub'' spec_tag ''pfx: '') =
       Some (errorString (''pfx: Error '' @ sq @ ''exit status 1'' @ sq @ ''creating keyring''))
   \<and> prefix ''pfx: ''
        (Error (errorString (''pfx: Error '' @ sq @ ''exit status 1'' @ sq @ ''creating keyring'')))"
proof -
  note pfx = failures_begin_with_ErrPrefix [of h_fail w_init "''pkg.rpm''" "''pfx: ''"
      "''t.tar''" "''t.sig''" "''k.pub''" spec_tag]
  have r: "fst (VerifyRpmSignature h_fail w_init ''pkg.rpm'' ''pfx: '') =
     Some (errorString (''pfx: :Running '' @ sq @ ''rpm -K pkg.rpm'' @ sq
                        @ '': exited with exit-code 1'' @ nl @ ''stderr:'' @ nl @ ''no such file''))"
    by (rule Rpm_h_fail)
  have t: "fst (VerifyTarballSignature h_fail w_init ''t.tar'' ''t.sig'' ''k.pub'' ''pfx: '') =
       Some (errorString (''pfx: Error '' @ sq @ ''exit status 1'' @ sq @ ''creating keyring''))"
    by (rule Tarball_h_fail)
  have g: "fst (VerifyGitSignature h_fail w_init ''k.pub'' spec_tag ''pfx: '') =
       Some (errorString (''pfx: Error '' @ sq @ ''exit status 1'' @ sq @ ''creating keyring''))"
    by (simp add: Git_h_fail)
  from pfx r have "prefix ''pfx: ''
        (Error (errorString (''pfx: :Running '' @ sq @ ''rpm -K pkg.rpm'' @ sq
                        @ '': exited with exit-code 1'' @ nl @ ''stderr:'' @ nl @ ''no such file'')))"
    by blast
  moreover from pfx t have "prefix ''pfx: ''
        (Error (errorString (''pfx: Error '' @ sq @ ''exit status 1'' @ sq @ ''creating keyring'')))"
    by blast
  ultimately show ?thesis
    using r t g by blast
qed

text \<open>
  C9. \<open>CheckOutput\<close> returns the captured stdout in every case; with it come no error
  when the command reports none, an error whose message holds the exit code and the
  captured stderr when the command reports an \<open>ExitError\<close>, and an error whose message
  holds the message of the underlying error otherwise.
\<close>

theorem CheckOutput_results:
  "(p_err (spawn h (exec_Command name arg) w) = None \<longrightarrow>
      fst (CheckOutput h w name arg) = (p_stdout (spawn h (exec_Command name arg) w), None))
   \<and> (\<forall>code stderr st.
         p_err (spawn h (exec_Command name arg) w) = Some (ExitError code stderr st) \<longrightarrow>
         (\<exists>msg. fst (CheckOutput h w name arg) =
                  (p_stdout (spawn h (exec_Command name arg) w), Some (errorString msg))
                \<and> sublist (Itoa code) msg \<and> sublist stderr msg))
   \<and> (\<forall>raw.
         p_err (spawn h (exec_Command name arg) w) = Some (errorString raw) \<longrightarrow>
         (\<exists>msg. fst (CheckOutput h w name arg) =
                  (p_stdout (spawn h (exec_Command name arg) w), Some (errorString msg))
                \<and> sublist (Error (errorString raw)) msg))"
proof (intro conjI allI impI)
  assume "p_err (spawn h (exec_Command name arg) w) = None"
  then show "fst (CheckOutput h w name arg) = (p_stdout (spawn h (exec_Command name arg) w), None)"
    by (simp add: CheckOutput_eq)
next
  fix code stderr st
  assume e: "p_err (spawn h (exec_Command name arg) w) = Some (ExitError code stderr st)"
  let ?ps = "[''Running '', sq, name, '' '', strings_Join arg '' '', sq,
              '': exited with exit-code '', Itoa code, nl, ''stderr:'', nl, stderr]"
  have "fst (CheckOutput h w name arg) =
          (p_stdout (spawn h (exec_Command name arg) w), Some (Errorf ?ps))"
    by (simp add: CheckOutput_eq e)
  then have "fst (CheckOutput h w name arg) =
          (p_stdout (spawn h (exec_Command name arg) w), Some (errorString (Error (Errorf ?ps))))"
    by (simp only: Errorf_is_errorString [symmetric])
  moreover have "sublist (Itoa code) (Error (Errorf ?ps))"
    by (rule sublist_Errorf) simp
  moreover have "sublist stderr (Error (Errorf ?ps))"
    by (rule sublist_Errorf) simp
  ultimately show "\<exists>msg. fst (CheckOutput h w name arg) =
                  (p_stdout (spawn h (exec_Command name arg) w), Some (errorString msg))
                \<and> sublist (Itoa code) msg \<and> sublist stderr msg"
    by blast
next
  fix raw
  assume e: "p_err (spawn h (exec_Command name arg) w) = Some (errorString raw)"
  let ?ps = "[''Running '', sq, name, '' '', strings_Join arg '' '', sq,
              '' failed with '', sq, raw, sq]"
  have "fst (CheckOutput h w name arg) =
          (p_stdout (spawn h (exec_Command name arg) w), Some (Errorf ?ps))"
    by (simp add: CheckOutput_eq e)
  then have "fst (CheckOutput h w name arg) =
          (p_stdout (spawn h (exec_Command name arg) w), Some (errorString (Error (Errorf ?ps))))"
    by (simp only: Errorf_is_errorString [symmetric])
  moreover have "sublist (Error (errorString raw)) (Error (Errorf ?ps))"
    by (simp add: sublist_Errorf)
  ultimately show "\<exists>msg. fst (CheckOutput h w name arg) =
                  (p_stdout (spawn h (exec_Command name arg) w), Some (errorString msg))
                \<and> sublist (Error (errorString raw)) msg"
    by blast
qed

theorem CheckOutput_results_witness:
  "p_err (spawn h_ok (exec_Command ''rpm'' [''-K'', ''pkg.rpm'']) w_init) = None
   \<and> fst (CheckOutput h_ok w_init ''rpm'' [''-K'', ''pkg.rpm'']) =
       (''pkg.rpm: digests signatures OK'', None)
   \<and> p_err (spawn h_fail (exec_Command ''rpm'' [''-K'', ''pkg.rpm'']) w_init) =
       Some (ExitError 1 ''no such file'' ''exit status 1'')
   \<and> (\<exists>msg. fst (CheckOutput h_fail w_init ''rpm'' [''-K'', ''pkg.rpm'']) =
               ('''', Some (errorString msg))
             \<and> sublist (Itoa 1) msg \<and> sublist ''no such file'' msg)
   \<and> p_err (spawn h_broken (exec_Command ''rpm'' [''-K'', ''pkg.rpm'']) w_init) =
       Some (errorString ''executable file not found'')
   \<and> (\<exists>msg. fst (CheckOutput h_broken w_init ''rpm'' [''-K'', ''pkg.rpm'']) =
               ('''', Some (errorString msg))
             \<and> sublist ''executable file not found'' msg)"
proof -
  note ok = CheckOutput_results [of h_ok "''rpm''" "[''-K'', ''pkg.rpm'']" w_init]
  note fail = CheckOutput_results [of h_fail "''rpm''" "[''-K'', ''pkg.rpm'']" w_init]
  note broken = CheckOutput_results [of h_broken "''rpm''" "[''-K'', ''pkg.rpm'']" w_init]
  have "fst (CheckOutput h_ok w_init ''rpm'' [''-K'', ''pkg.rpm'']) =
          (''pkg.rpm: digests signatures OK'', None)"
    using ok by (simp add: spawn_h_ok)
  moreover have "\<exists>msg. fst (CheckOutput h_fail w_init ''rpm'' [''-K'', ''pkg.rpm'']) =
               ('''', Some (errorString msg))
             \<and> sublist (Itoa 1) msg \<and> sublist ''no such file'' msg"
    using fail by (simp add: spawn_h_fail)
  moreover have "\<exists>msg. fst (CheckOutput h_broken w_init ''rpm'' [''-K'', ''pkg.rpm'']) =
               ('''', Some (errorString msg))
             \<and> sublist ''executable file not found'' msg"
    using broken by (simp add: spawn_h_broken)
  ultimately show ?thesis
    by (simp add: spawn_h_ok spawn_h_fail spawn_h_broken)
qed

text \<open>
  C10. The classification is the empty string and so is the version, for every
  \<open>GitSpec\<close>; every program that \<open>VerifyGitSignature\<close> starts is gpg, never git;
  and once the temporary directory, the keyring and the import have succeeded the result
  is the error about the invalid revision.
\<close>

theorem revision_functions_are_stubs:
  "typeOfGitRevision gitSpec = '''' \<and> GetVersionFromRevision gitSpec = ''''
   \<and> (\<forall>c \<in> set (issued w (snd (VerifyGitSignature h w pubKeyPath gitSpec errPrefix))).
         Name c \<noteq> ''git'')
   \<and> (\<forall>tmpDir w0 w1 w2.
         os_MkdirTemp h w '''' ''eext-keyring'' = (Inr tmpDir, w0)
         \<and> RunSystemCmd h w0 ''gpg'' (keyring_args tmpDir @ [''--fingerprint'']) = (None, w1)
         \<and> RunSystemCmd h w1 ''gpg'' (keyring_args tmpDir @ [''--import'', pubKeyPath]) = (None, w2)
         \<longrightarrow> fst (VerifyGitSignature h w pubKeyPath gitSpec errPrefix) =
               Some (Errorf [errPrefix, ''invalid revision '', Revision gitSpec,
                             '' provided, provide either a COMMIT or TAG'']))"
proof -
  have t: "typeOfGitRevision gitSpec \<noteq> ''COMMIT''" "typeOfGitRevision gitSpec \<noteq> ''TAG''"
    by (simp_all add: typeOfGitRevision_def)
  have "\<forall>c \<in> set (issued w (snd (VerifyGitSignature h w pubKeyPath gitSpec errPrefix))).
          Name c \<noteq> ''git''"
    using Git_issued_gpg [of w h pubKeyPath gitSpec errPrefix] by auto
  moreover have "\<forall>tmpDir w0 w1 w2.
         os_MkdirTemp h w '''' ''eext-keyring'' = (Inr tmpDir, w0)
         \<and> RunSystemCmd h w0 ''gpg'' (keyring_args tmpDir @ [''--fingerprint'']) = (None, w1)
         \<and> RunSystemCmd h w1 ''gpg'' (keyring_args tmpDir @ [''--import'', pubKeyPath]) = (None, w2)
         \<longrightarrow> fst (VerifyGitSignature h w pubKeyPath gitSpec errPrefix) =
               Some (Errorf [errPrefix, ''invalid revision '', Revision gitSpec,
                             '' provided, provide either a COMMIT or TAG''])"
    by (auto simp: Git_after_setup [OF t])
  ultimately show ?thesis
    by (simp add: typeOfGitRevision_def GetVersionFromRevision_def)
qed

theorem revision_functions_are_stubs_witness:
  "os_MkdirTemp h_ok w_init '''' ''eext-keyring'' = (Inr ''/tmp/eext-keyring42'', w_ok0)
   \<and> RunSystemCmd h_ok w_ok0 ''gpg'' (keyring_args ''/tmp/eext-keyring42'' @ [''--fingerprint''])
       = (None, w_ok1)
   \<and> RunSystemCmd h_ok w_ok1 ''gpg'' (keyring_args ''/tmp/eext-keyring42'' @ [''--import'', ''k.pub''])
       = (None, w_ok2)
   \<and> fst (VerifyGitSignature h_ok w_init ''k.pub'' spec_tag ''pfx: '') =
       Some (Errorf [''pfx: '', ''invalid revision '', ''v1.2.0'',
                     '' provided, provide either a COMMIT or TAG''])
   \<and> gpg (keyring_args ''/tmp/eext-keyring42'' @ [''--import'', ''k.pub''])
       \<in> set (issued w_init (snd (VerifyGitSignature h_ok w_init ''k.pub'' spec_tag ''pfx: '')))
   \<and> Name (gpg (keyring_args ''/tmp/eext-keyring42'' @ [''--import'', ''k.pub''])) \<noteq> ''git''
   \<and> typeOfGitRevision spec_tag = '''' \<and> GetVersionFromRevision spec_tag = ''''"
proof -
  note stub = revision_functions_are_stubs [of spec_tag w_init h_ok "''k.pub''" "''pfx: ''"]
  have steps:
    "os_MkdirTemp h_ok w_init '''' ''eext-keyring'' = (Inr ''/tmp/eext-keyring42'', w_ok0)
     \<and> RunSystemCmd h_ok w_ok0 ''gpg'' (keyring_args ''/tmp/eext-keyring42'' @ [''--fingerprint''])
         = (None, w_ok1)
     \<and> RunSystemCmd h_ok w_ok1 ''gpg'' (keyring_args ''/tmp/eext-keyring42'' @ [''--import'', ''k.pub''])
         = (None, w_ok2)"
    by (simp add: MkdirTemp_h_ok0 Run1_h_ok Run2_h_ok)
  have mem: "gpg (keyring_args ''/tmp/eext-keyring42'' @ [''--import'', ''k.pub''])
       \<in> set (issued w_init (snd (VerifyGitSignature h_ok w_init ''k.pub'' spec_tag ''pfx: '')))"
    by (simp add: issued_Git_h_ok)
  from stub steps have
    "fst (VerifyGitSignature h_ok w_init ''k.pub'' spec_tag ''pfx: '') =
       Some (Errorf [''pfx: '', ''invalid revision '', Revision spec_tag,
                     '' provided, provide either a COMMIT or TAG''])"
    by blast
  then have "fst (VerifyGitSignature h_ok w_init ''k.pub'' spec_tag ''pfx: '') =
       Some (Errorf [''pfx: '', ''invalid revision '', ''v1.2.0'',
                     '' provided, provide either a COMMIT or TAG''])"
    by (simp add: spec_tag_def)
  moreover from stub mem have
    "Name (gpg (keyring_args ''/tmp/eext-keyring42'' @ [''--import'', ''k.pub''])) \<noteq> ''git''"
    by blast
  moreover from stub have "typeOfGitRevision spec_tag = '''' \<and> GetVersionFromRevision spec_tag = ''''"
    by blast
  ultimately show ?thesis
    using steps mem by simp
qed

end
